theory Spec2Isabelle
  imports Complex_Main
begin

section \<open>The AutoColumnSize plugin: data model\<close>

text \<open>
  The plugin of \<^verbatim>\<open>src/plugins/autoColumnSize/autoColumnSize.js\<close> caches one width per
  column and decides which columns are measured again. Column and row indexes are
  JavaScript numbers used as indexes, modelled as \<open>int\<close> (the viewport reports \<open>-1\<close>);
  widths are JavaScript numbers, modelled as \<open>real\<close> (NaN and the infinities are outside
  the model); \<^verbatim>\<open>undefined\<close> is \<open>None\<close>.
\<close>

text \<open>Dereferencing \<^verbatim>\<open>this.hot\<close> after the host was destroyed throws a TypeError.\<close>

datatype error = TypeError

text \<open>A range object \<^verbatim>\<open>{from: a, to: b}\<close>; an argument is a number or a range object.\<close>

datatype range = Range (rfrom: int) (rto: int)

datatype rangeArg = Number int | Object range

text \<open>
  What the plugin reads of the Handsontable instance \<^verbatim>\<open>this.hot\<close>: the two counts,
  \<^verbatim>\<open>_getColWidthFromSettings\<close>, \<^verbatim>\<open>renderCall\<close>, the two calculators of
  \<^verbatim>\<open>view.wt.wtViewport\<close> (by their truthiness), the four answers of \<^verbatim>\<open>view.wt.wtTable\<close>
  and \<^verbatim>\<open>leftOverlay.needFullRender\<close>.
\<close>

record host =
  countCols :: int
  countRows :: int
  getColWidthFromSettings :: "int \<Rightarrow> real option"
  renderCall :: bool
  columnsVisibleCalculator :: bool
  columnsRenderCalculator :: bool
  firstVisibleColumn :: int
  lastVisibleColumn :: int
  firstRenderedColumn :: int
  lastRenderedColumn :: int
  needFullRender :: bool

text \<open>
  The two collaborators whose classes are imported from \<^verbatim>\<open>utils/\<close> are parameters:
  \<^verbatim>\<open>samplesGenerator.generateColumnSamples(col, rowRange)\<close> answers a Map from column
  index to samples, kept as an association list in insertion order, and the width
  the ghost table measures for a registered column is a function of the column and
  its samples. Both read the host's data, so unchanged data is the same record.
\<close>

record 's collaborators =
  generateColumnSamples :: "int \<Rightarrow> range \<Rightarrow> (int \<times> 's) list"
  outerWidth :: "int \<Rightarrow> 's \<Rightarrow> real"

text \<open>
  The state the plugin's methods change: \<open>widths\<close> is \<^verbatim>\<open>this.widths\<close> (a sparse array
  read by index, so a function to \<open>option\<close>), \<open>ghostColumns\<close> is
  \<^verbatim>\<open>this.ghostTable.columns\<close>, \<open>sampleRequests\<close> records every call of
  \<^verbatim>\<open>generateColumnSamples\<close> in order, \<open>pendingFrames\<close> and \<open>nextFrame\<close> are the frame
  scheduler (the handles not yet fired or cancelled, and the next handle), and the
  two counters count the calls of \<^verbatim>\<open>wtOverlays.adjustElementsSize(true)\<close> and of
  \<^verbatim>\<open>leftOverlay.clone.draw()\<close>.
\<close>

record 's state =
  widths :: "int \<Rightarrow> real option"
  ghostColumns :: "(int \<times> 's) list"
  sampleRequests :: "(int \<times> range) list"
  pendingFrames :: "nat list"
  nextFrame :: nat
  adjustElementsSizeCalls :: nat
  drawCalls :: nat

section \<open>Helpers that the plugin imports\<close>

text \<open>
  Modelled from the spec: \<^verbatim>\<open>rangeEach\<close> of \<^verbatim>\<open>helpers.js\<close> is not among the sources. The
  spec's ranges are inclusive on both ends, the engine visits every column of the
  range in ascending order, and a range with \<open>from > to\<close> is empty. The callback may
  throw, which ends the iteration.
\<close>

fun rangeEachList :: "int list \<Rightarrow> (int \<Rightarrow> 'a \<Rightarrow> error + 'a) \<Rightarrow> 'a \<Rightarrow> error + 'a" where
  "rangeEachList [] iteratee s = Inr s"
| "rangeEachList (index # rest) iteratee s =
     (case iteratee index s of
        Inl e \<Rightarrow> Inl e
      | Inr s' \<Rightarrow> rangeEachList rest iteratee s')"

definition rangeEach :: "int \<Rightarrow> int \<Rightarrow> (int \<Rightarrow> 'a \<Rightarrow> error + 'a) \<Rightarrow> 'a \<Rightarrow> error + 'a" where
  "rangeEach rangeFrom rangeTo iteratee s = rangeEachList [rangeFrom..rangeTo] iteratee s"

text \<open>
  Modelled from the spec: \<^verbatim>\<open>arrayEach\<close> of \<^verbatim>\<open>helpers.js\<close> is not among the sources. The
  spec's before-change hook acts "for every edit" of the list, in order.
\<close>

definition arrayEach :: "'a list \<Rightarrow> ('a \<Rightarrow> 'b \<Rightarrow> 'b) \<Rightarrow> 'b \<Rightarrow> 'b" where
  "arrayEach array iteratee s = fold iteratee array s"

text \<open>
  Modelled from the spec: \<^verbatim>\<open>requestAnimationFrame\<close> and \<^verbatim>\<open>cancelAnimationFrame\<close> of
  \<^verbatim>\<open>helpers.js\<close> are not among the sources. The spec gives them the standard
  request/cancel semantics: a request answers a fresh handle and leaves the callback
  pending; cancelling removes a pending handle and ignores \<^verbatim>\<open>null\<close> and handles that
  are not pending; when a frame fires, its handle stops being pending.
\<close>

definition requestAnimationFrame :: "'s state \<Rightarrow> nat \<times> 's state" where
  "requestAnimationFrame s =
     (nextFrame s,
      s\<lparr>pendingFrames := pendingFrames s @ [nextFrame s], nextFrame := Suc (nextFrame s)\<rparr>)"

definition cancelAnimationFrame :: "nat option \<Rightarrow> 's state \<Rightarrow> 's state" where
  "cancelAnimationFrame timer s =
     (case timer of
        None \<Rightarrow> s
      | Some h \<Rightarrow> s\<lparr>pendingFrames := removeAll h (pendingFrames s)\<rparr>)"

definition fireFrame :: "nat \<Rightarrow> 's state \<Rightarrow> 's state" where
  "fireFrame h s = s\<lparr>pendingFrames := removeAll h (pendingFrames s)\<rparr>"

text \<open>
  Modelled from the spec: the class \<^verbatim>\<open>GhostTable\<close> of \<^verbatim>\<open>utils/ghostTable.js\<close> is not
  among the sources. By the spec's Measurement Surface, \<^verbatim>\<open>addColumn\<close> registers a column
  with its samples, \<^verbatim>\<open>getWidths\<close> calls the callback once per registered column, in
  order and before it returns, and \<^verbatim>\<open>clean\<close> empties the registrations.
\<close>

definition addColumn :: "int \<Rightarrow> 's \<Rightarrow> 's state \<Rightarrow> 's state" where
  "addColumn col sample s = s\<lparr>ghostColumns := ghostColumns s @ [(col, sample)]\<rparr>"

fun getWidths ::
  "'s collaborators \<Rightarrow> (int \<times> 's) list \<Rightarrow> (int \<Rightarrow> real \<Rightarrow> 'a \<Rightarrow> 'a) \<Rightarrow> 'a \<Rightarrow> 'a" where
  "getWidths env [] callback s = s"
| "getWidths env ((col, sample) # rest) callback s =
     getWidths env rest callback (callback col (outerWidth env col sample) s)"

definition clean :: "'s state \<Rightarrow> 's state" where
  "clean s = s\<lparr>ghostColumns := []\<rparr>"

section \<open>The calculation engine\<close>

definition CALCULATION_STEP :: int where
  "CALCULATION_STEP = 19"

text \<open>\<^verbatim>\<open>if (typeof colRange === 'number') colRange = {from: colRange, to: colRange}\<close>\<close>

fun normalizeRange :: "rangeArg \<Rightarrow> range" where
  "normalizeRange (Number n) = Range n n"
| "normalizeRange (Object r) = r"

text \<open>
  A default parameter \<^verbatim>\<open>{from: 0, to: this.hot.countX() - 1}\<close>: evaluated only when the
  argument is \<^verbatim>\<open>undefined\<close>, and then it dereferences \<^verbatim>\<open>this.hot\<close>.
\<close>

fun argOrDefault :: "rangeArg option \<Rightarrow> int option \<Rightarrow> error + rangeArg" where
  "argOrDefault (Some a) count = Inr a"
| "argOrDefault None (Some n) = Inr (Object (Range 0 (n - 1)))"
| "argOrDefault None None = Inl TypeError"

text \<open>The truthiness of a number or \<^verbatim>\<open>undefined\<close>.\<close>

definition truthy :: "real option \<Rightarrow> bool" where
  "truthy v = (case v of None \<Rightarrow> False | Some x \<Rightarrow> x \<noteq> 0)"

text \<open>
  \<^verbatim>\<open>samples.forEach((sample, col) => this.ghostTable.addColumn(col, sample))\<close> after
  \<^verbatim>\<open>generateColumnSamples(col, rowRange)\<close>.
\<close>

definition addSamples :: "'s collaborators \<Rightarrow> int \<Rightarrow> range \<Rightarrow> 's state \<Rightarrow> 's state" where
  "addSamples env col rowRange s =
     fold (\<lambda>(c, sample). addColumn c sample) (generateColumnSamples env col rowRange)
       (s\<lparr>sampleRequests := sampleRequests s @ [(col, rowRange)]\<rparr>)"

text \<open>
  The callback of \<^verbatim>\<open>rangeEach\<close> in \<^verbatim>\<open>calculateColumnsWidth\<close>:
  \<^verbatim>\<open>if (force || (this.widths[col] === void 0 && !this.hot._getColWidthFromSettings(col)))\<close>.
  The operators short-circuit, so the host is dereferenced only when \<open>force\<close> is false
  and no width is cached.
\<close>

definition columnStep ::
  "'s collaborators \<Rightarrow> host option \<Rightarrow> range \<Rightarrow> bool \<Rightarrow> int \<Rightarrow> 's state \<Rightarrow> error + 's state" where
  "columnStep env hot rowRange force col s =
     (if force then Inr (addSamples env col rowRange s)
      else if widths s col \<noteq> None then Inr s
      else (case hot of
              None \<Rightarrow> Inl TypeError
            | Some h \<Rightarrow>
                if truthy (getColWidthFromSettings h col) then Inr s
                else Inr (addSamples env col rowRange s)))"

text \<open>
  \<^verbatim>\<open>if (this.ghostTable.columns.length) { getWidths((col, width) => this.widths[col] = width); clean() }\<close>
\<close>

definition flush :: "'s collaborators \<Rightarrow> 's state \<Rightarrow> 's state" where
  "flush env s =
     (if ghostColumns s \<noteq> [] then
        clean (getWidths env (ghostColumns s)
                 (\<lambda>col width t. t\<lparr>widths := (widths t)(col \<mapsto> width)\<rparr>) s)
      else s)"

definition calculateColumnsWidth ::
  "'s collaborators \<Rightarrow> host option \<Rightarrow> rangeArg option \<Rightarrow> rangeArg option \<Rightarrow> bool \<Rightarrow>
   's state \<Rightarrow> error + 's state" where
  "calculateColumnsWidth env hot colRange rowRange force s =
     (case argOrDefault colRange (map_option countCols hot) of
        Inl e \<Rightarrow> Inl e
      | Inr colArg \<Rightarrow>
          (case argOrDefault rowRange (map_option countRows hot) of
             Inl e \<Rightarrow> Inl e
           | Inr rowArg \<Rightarrow>
               (case rangeEach (rfrom (normalizeRange colArg)) (rto (normalizeRange colArg))
                       (columnStep env hot (normalizeRange rowArg) force) s of
                  Inl e \<Rightarrow> Inl e
                | Inr s' \<Rightarrow> Inr (flush env s'))))"

text \<open>\<^verbatim>\<open>getColumnWidth(col, defaultWidth = void 0)\<close>; \<open>orZero\<close> is \<^verbatim>\<open>(defaultWidth || 0)\<close>.\<close>

definition orZero :: "real option \<Rightarrow> real" where
  "orZero v = (if truthy v then the v else 0)"

definition getColumnWidth :: "'s state \<Rightarrow> int \<Rightarrow> real option \<Rightarrow> real option" where
  "getColumnWidth s col defaultWidth =
     (case widths s col of
        None \<Rightarrow> defaultWidth
      | Some w \<Rightarrow> if w > orZero defaultWidth then Some w else defaultWidth)"

section \<open>The incremental scheduler\<close>

text \<open>
  The branch of \<^verbatim>\<open>loop\<close> that ends a run: the timer is cancelled when it is not
  \<^verbatim>\<open>null\<close>, the overlays are adjusted once, and the left overlay's clone is drawn when
  it needs a full render.
\<close>

definition finishRun :: "host \<Rightarrow> nat option \<Rightarrow> 's state \<Rightarrow> 's state" where
  "finishRun h timer s =
     (let s1 = cancelAnimationFrame timer s;
          s2 = s1\<lparr>adjustElementsSizeCalls := Suc (adjustElementsSizeCalls s1)\<rparr>
      in if needFullRender h then s2\<lparr>drawCalls := Suc (drawCalls s2)\<rparr> else s2)"

text \<open>
  The closure \<^verbatim>\<open>loop\<close> of \<^verbatim>\<open>calculateAllColumnsWidth\<close>, with its captured variables
  \<^verbatim>\<open>rowRange\<close>, \<^verbatim>\<open>length\<close> (here \<open>length'\<close>), \<^verbatim>\<open>current\<close> and \<^verbatim>\<open>timer\<close> as
  arguments. It runs once per
  frame; \<open>hotAt k\<close> is the value of \<^verbatim>\<open>this.hot\<close> when the \<open>k\<close>-th call runs (\<open>None\<close> once
  the host is destroyed). A rescheduled call is the scheduler firing the frame.
\<close>

function loop ::
  "'s collaborators \<Rightarrow> (nat \<Rightarrow> host option) \<Rightarrow> rangeArg \<Rightarrow> int \<Rightarrow> nat \<Rightarrow> int \<Rightarrow> nat option \<Rightarrow>
   's state \<Rightarrow> error + 's state" where
  "loop env hotAt rowRange length' k current timer s =
     (case hotAt k of
        None \<Rightarrow> Inr (cancelAnimationFrame timer s)
      | Some h \<Rightarrow>
          (case calculateColumnsWidth env (Some h)
                  (Some (Object (Range current (min (current + CALCULATION_STEP) length'))))
                  (Some rowRange) True s of
             Inl e \<Rightarrow> Inl e
           | Inr s1 \<Rightarrow>
               if current + CALCULATION_STEP + 1 < length' then
                 loop env hotAt rowRange length' (Suc k) (current + CALCULATION_STEP + 1)
                   (Some (fst (requestAnimationFrame s1)))
                   (fireFrame (fst (requestAnimationFrame s1)) (snd (requestAnimationFrame s1)))
               else Inr (finishRun h timer s1)))"
  by pat_completeness auto
termination
  by (relation "measure (\<lambda>(env, hotAt, rowRange, length', k, current, timer, s). nat (length' - current))")
     (auto simp: CALCULATION_STEP_def)

declare loop.simps [simp del]

definition calculateAllColumnsWidth ::
  "'s collaborators \<Rightarrow> (nat \<Rightarrow> host option) \<Rightarrow> rangeArg option \<Rightarrow> 's state \<Rightarrow> error + 's state" where
  "calculateAllColumnsWidth env hotAt rowRange s =
     (case hotAt 0 of
        None \<Rightarrow> Inl TypeError
      | Some h \<Rightarrow>
          (let rowArg = (case rowRange of None \<Rightarrow> Object (Range 0 (countRows h - 1)) | Some a \<Rightarrow> a);
               length' = countRows h - 1
           in if 0 < length' then loop env hotAt rowArg length' 0 0 None s else Inr s))"

section \<open>The hooks\<close>

definition getFirstVisibleColumn :: "host option \<Rightarrow> error + int" where
  "getFirstVisibleColumn hot =
     (case hot of
        None \<Rightarrow> Inl TypeError
      | Some h \<Rightarrow>
          Inr (if columnsVisibleCalculator h then firstVisibleColumn h
               else if columnsRenderCalculator h then firstRenderedColumn h
               else - 1))"

definition getLastVisibleColumn :: "host option \<Rightarrow> error + int" where
  "getLastVisibleColumn hot =
     (case hot of
        None \<Rightarrow> Inl TypeError
      | Some h \<Rightarrow>
          Inr (if columnsVisibleCalculator h then lastVisibleColumn h
               else if columnsRenderCalculator h then lastRenderedColumn h
               else - 1))"

definition onBeforeRender :: "'s collaborators \<Rightarrow> host option \<Rightarrow> 's state \<Rightarrow> error + 's state" where
  "onBeforeRender env hot s =
     (case hot of
        None \<Rightarrow> Inl TypeError
      | Some h \<Rightarrow>
          (case getFirstVisibleColumn hot of
             Inl e \<Rightarrow> Inl e
           | Inr firstCol \<Rightarrow>
               (case getLastVisibleColumn hot of
                  Inl e \<Rightarrow> Inl e
                | Inr lastCol \<Rightarrow>
                    calculateColumnsWidth env hot (Some (Object (Range firstCol lastCol))) None
                      (renderCall h) s)))"

text \<open>
  An edit is \<^verbatim>\<open>[row, col, oldValue, newValue]\<close>; the hook reads \<^verbatim>\<open>data[1]\<close> only.
\<close>

type_synonym 'v edit = "int \<times> int \<times> 'v \<times> 'v"

definition onBeforeChange :: "'v edit list \<Rightarrow> 's state \<Rightarrow> 's state" where
  "onBeforeChange changes s =
     arrayEach changes (\<lambda>data t. t\<lparr>widths := (widths t)(fst (snd data) := None)\<rparr>) s"

definition onBeforeColumnResize ::
  "'s collaborators \<Rightarrow> host option \<Rightarrow> int \<Rightarrow> real option \<Rightarrow> bool \<Rightarrow> 's state \<Rightarrow>
   error + (real option \<times> 's state)" where
  "onBeforeColumnResize env hot col size' isDblClick s =
     (if isDblClick then
        (case calculateColumnsWidth env hot None (Some (Number col)) True s of
           Inl e \<Rightarrow> Inl e
         | Inr s' \<Rightarrow> Inr (getColumnWidth s' col None, s'))
      else Inr (size', s))"

section \<open>Notions used to state the properties\<close>

text \<open>
  The condition under which the engine requests samples for a column, read at the
  cache \<open>ws\<close> the call starts from: \<open>force\<close>, or no cached width and no truthy width
  declared in the settings.
\<close>

definition wanted :: "host \<Rightarrow> bool \<Rightarrow> (int \<Rightarrow> real option) \<Rightarrow> int \<Rightarrow> bool" where
  "wanted h force ws col = (force \<or> (ws col = None \<and> \<not> truthy (getColWidthFromSettings h col)))"

text \<open>The cache after the ghost table reported the widths of the registered columns.\<close>

definition measuredWidths ::
  "'s collaborators \<Rightarrow> (int \<times> 's) list \<Rightarrow> (int \<Rightarrow> real option) \<Rightarrow> int \<Rightarrow> real option" where
  "measuredWidths env cols ws = fold (\<lambda>(c, sample) m. m(c \<mapsto> outerWidth env c sample)) cols ws"

text \<open>The sample requests issued between two states of one execution.\<close>

definition requestedSince :: "'s state \<Rightarrow> 's state \<Rightarrow> (int \<times> range) list" where
  "requestedSince s s' = drop (length (sampleRequests s)) (sampleRequests s')"

text \<open>
  The skip condition in the words of the specification: not forced, a width is
  cached, and the host declares no width for the column.
\<close>

definition specSkips :: "bool \<Rightarrow> bool \<Rightarrow> bool \<Rightarrow> bool" where
  "specSkips force cached declared = (\<not> force \<and> cached \<and> \<not> declared)"

text \<open>The host stays available during a run, or is destroyed before frame \<open>j\<close>.\<close>

definition alive :: "host \<Rightarrow> nat \<Rightarrow> host option" where
  "alive h k = Some h"

definition destroyedBefore :: "nat \<Rightarrow> host \<Rightarrow> nat \<Rightarrow> host option" where
  "destroyedBefore j h k = (if k < j then Some h else None)"

section \<open>Concrete hosts and collaborators\<close>

text \<open>
  A rendered table of the given size with no width declared in the settings; the
  same table before its first render; a table that declares 100 pixels for column 2.
  A sample selector that answers one entry for the requested column (the column
  index and the row range stand for the sampled values) with a ghost table that
  measures every column at 50 pixels, or at 0 pixels.
\<close>

definition gridHost :: "int \<Rightarrow> int \<Rightarrow> host" where
  "gridHost cols rows =
     \<lparr>countCols = cols, countRows = rows, getColWidthFromSettings = (\<lambda>col. None),
      renderCall = False, columnsVisibleCalculator = True, columnsRenderCalculator = True,
      firstVisibleColumn = 0, lastVisibleColumn = cols - 1,
      firstRenderedColumn = 0, lastRenderedColumn = cols - 1, needFullRender = False\<rparr>"

definition notRendered :: "int \<Rightarrow> int \<Rightarrow> host" where
  "notRendered cols rows =
     (gridHost cols rows)\<lparr>columnsVisibleCalculator := False, columnsRenderCalculator := False\<rparr>"

definition declaredHost :: host where
  "declaredHost =
     (gridHost 3 5)\<lparr>getColWidthFromSettings := (\<lambda>col. if col = 2 then Some 100 else None)\<rparr>"

definition ownColumn :: "(int \<times> range) collaborators" where
  "ownColumn =
     \<lparr>generateColumnSamples = (\<lambda>col rowRange. [(col, (col, rowRange))]),
      outerWidth = (\<lambda>col sample. 50)\<rparr>"

definition zeroWidth :: "(int \<times> range) collaborators" where
  "zeroWidth =
     \<lparr>generateColumnSamples = (\<lambda>col rowRange. [(col, (col, rowRange))]),
      outerWidth = (\<lambda>col sample. 0)\<rparr>"

definition emptyState :: "'s state" where
  "emptyState =
     \<lparr>widths = (\<lambda>col. None), ghostColumns = [], sampleRequests = [], pendingFrames = [],
      nextFrame = 0, adjustElementsSizeCalls = 0, drawCalls = 0\<rparr>"

section \<open>How one call of the engine changes the state\<close>

lemma fold_addColumn:
  "fold (\<lambda>(c, sample). addColumn c sample) xs s = s\<lparr>ghostColumns := ghostColumns s @ xs\<rparr>"
  by (induction xs arbitrary: s) (auto simp: addColumn_def)

lemma addSamples_eq:
  "addSamples env col rowRange s =
     s\<lparr>sampleRequests := sampleRequests s @ [(col, rowRange)],
       ghostColumns := ghostColumns s @ generateColumnSamples env col rowRange\<rparr>"
  by (simp add: addSamples_def fold_addColumn)

lemma columnStep_Some:
  "columnStep env (Some h) rowRange force col s =
     Inr (if wanted h force (widths s) col then addSamples env col rowRange s else s)"
  by (simp add: columnStep_def wanted_def)

lemma rangeEachList_columnStep:
  "rangeEachList cols (columnStep env (Some h) rowRange force) s =
     Inr (s\<lparr>sampleRequests :=
              sampleRequests s @ map (\<lambda>c. (c, rowRange)) (filter (wanted h force (widths s)) cols),
            ghostColumns :=
              ghostColumns s @
              concat (map (\<lambda>c. generateColumnSamples env c rowRange)
                        (filter (wanted h force (widths s)) cols))\<rparr>)"
  by (induction cols arbitrary: s) (simp_all add: columnStep_Some addSamples_eq)

lemma rangeEachList_forced:
  "rangeEachList cols (columnStep env hot rowRange True) s =
     Inr (s\<lparr>sampleRequests := sampleRequests s @ map (\<lambda>c. (c, rowRange)) cols,
            ghostColumns :=
              ghostColumns s @ concat (map (\<lambda>c. generateColumnSamples env c rowRange) cols)\<rparr>)"
  by (induction cols arbitrary: s) (simp_all add: columnStep_def addSamples_eq)

lemma getWidths_widths:
  "getWidths env cols (\<lambda>col width t. t\<lparr>widths := (widths t)(col \<mapsto> width)\<rparr>) s =
     s\<lparr>widths := measuredWidths env cols (widths s)\<rparr>"
  by (induction cols arbitrary: s) (auto simp: measuredWidths_def)

lemma flush_eq:
  "flush env s = s\<lparr>widths := measuredWidths env (ghostColumns s) (widths s), ghostColumns := []\<rparr>"
  by (cases "ghostColumns s") (simp_all add: flush_def getWidths_widths clean_def measuredWidths_def)

lemma measuredWidths_cached:
  "c \<in> fst ` set cols \<or> ws c \<noteq> None \<Longrightarrow> measuredWidths env cols ws c \<noteq> None"
  unfolding measuredWidths_def
  by (induction cols arbitrary: ws) (auto split: if_splits)

text \<open>The ranges a call works on when the host is there.\<close>

lemma argOrDefault_Some:
  "argOrDefault arg (Some n) = Inr (case arg of None \<Rightarrow> Object (Range 0 (n - 1)) | Some a \<Rightarrow> a)"
  by (cases arg) simp_all

lemma calculateColumnsWidth_Some:
  "calculateColumnsWidth env (Some h) (Some colArg) (Some rowArg) force s =
     Inr (flush env
       (s\<lparr>sampleRequests :=
            sampleRequests s @
            map (\<lambda>c. (c, normalizeRange rowArg))
              (filter (wanted h force (widths s))
                 [rfrom (normalizeRange colArg)..rto (normalizeRange colArg)]),
          ghostColumns :=
            ghostColumns s @
            concat (map (\<lambda>c. generateColumnSamples env c (normalizeRange rowArg))
              (filter (wanted h force (widths s))
                 [rfrom (normalizeRange colArg)..rto (normalizeRange colArg)]))\<rparr>))"
  by (simp add: calculateColumnsWidth_def rangeEach_def rangeEachList_columnStep)

lemma calculateColumnsWidth_default:
  "calculateColumnsWidth env (Some h) colRange rowRange force s =
     calculateColumnsWidth env (Some h)
       (Some (case colRange of None \<Rightarrow> Object (Range 0 (countCols h - 1)) | Some a \<Rightarrow> a))
       (Some (case rowRange of None \<Rightarrow> Object (Range 0 (countRows h - 1)) | Some a \<Rightarrow> a))
       force s"
  by (simp add: calculateColumnsWidth_def argOrDefault_Some)

lemma calculateColumnsWidth_forced:
  "calculateColumnsWidth env hot (Some colArg) (Some rowArg) True s =
     Inr (flush env
       (s\<lparr>sampleRequests :=
            sampleRequests s @
            map (\<lambda>c. (c, normalizeRange rowArg))
              [rfrom (normalizeRange colArg)..rto (normalizeRange colArg)],
          ghostColumns :=
            ghostColumns s @
            concat (map (\<lambda>c. generateColumnSamples env c (normalizeRange rowArg))
              [rfrom (normalizeRange colArg)..rto (normalizeRange colArg)])\<rparr>))"
  by (simp add: calculateColumnsWidth_def rangeEach_def rangeEachList_forced)

section \<open>Width resolution\<close>

lemma orZero_Some [simp]: "orZero (Some d) = d"
  by (simp add: orZero_def truthy_def)

lemma orZero_None [simp]: "orZero None = 0"
  by (simp add: orZero_def truthy_def)

section \<open>Edits and the scheduler's loop\<close>

lemma onBeforeChange_widths:
  "widths (onBeforeChange changes s) c =
     (if c \<in> (fst \<circ> snd) ` set changes then None else widths s c)"
  unfolding onBeforeChange_def arrayEach_def
  by (induction changes arbitrary: s) auto

lemma calculateColumnsWidth_ghostColumns:
  "calculateColumnsWidth env (Some h) (Some colArg) (Some rowArg) force s = Inr s1 \<Longrightarrow>
   ghostColumns s1 = []"
  by (auto simp: calculateColumnsWidth_Some flush_eq)

text \<open>A call that wants no column of its range and finds no registration changes nothing.\<close>

lemma calculateColumnsWidth_quiet:
  assumes "ghostColumns s = []"
    and "\<forall>c \<in> set [rfrom (normalizeRange colArg)..rto (normalizeRange colArg)].
           \<not> wanted h False (widths s) c"
  shows "calculateColumnsWidth env (Some h) (Some colArg) (Some rowArg) False s = Inr s"
proof -
  have "filter (wanted h False (widths s))
      [rfrom (normalizeRange colArg)..rto (normalizeRange colArg)] = []"
    using assms(2) by (simp add: filter_empty_conv)
  then show ?thesis
    using assms(1) by (simp add: calculateColumnsWidth_Some flush_eq measuredWidths_def)
qed

text \<open>
  When the sample selector answers an entry for the column it was asked about, an
  unforced call leaves no column of its range wanted.
\<close>

lemma calculateColumnsWidth_warms:
  assumes own: "\<forall>c rr. c \<in> fst ` set (generateColumnSamples env c rr)"
    and call: "calculateColumnsWidth env (Some h) (Some colArg) (Some rowArg) False s = Inr s1"
    and range: "c \<in> set [rfrom (normalizeRange colArg)..rto (normalizeRange colArg)]"
  shows "\<not> wanted h False (widths s1) c"
proof -
  let ?cols = "filter (wanted h False (widths s))
      [rfrom (normalizeRange colArg)..rto (normalizeRange colArg)]"
  let ?registered = "ghostColumns s @
      concat (map (\<lambda>c. generateColumnSamples env c (normalizeRange rowArg)) ?cols)"
  from call have after: "widths s1 = measuredWidths env ?registered (widths s)"
    by (auto simp: calculateColumnsWidth_Some flush_eq)
  show ?thesis
  proof (cases "wanted h False (widths s) c")
    case True
    with range have "c \<in> set ?cols"
      by simp
    moreover from own have "c \<in> fst ` set (generateColumnSamples env c (normalizeRange rowArg))"
      by blast
    ultimately have "c \<in> fst ` set ?registered"
      by auto
    then have "measuredWidths env ?registered (widths s) c \<noteq> None"
      by (intro measuredWidths_cached disjI1)
    with after show ?thesis
      by (simp add: wanted_def)
  next
    case False
    then consider "widths s c \<noteq> None" | "truthy (getColWidthFromSettings h c)"
      by (auto simp: wanted_def)
    then show ?thesis
    proof cases
      case 1
      then have "measuredWidths env ?registered (widths s) c \<noteq> None"
        by (intro measuredWidths_cached disjI2)
      with after show ?thesis
        by (simp add: wanted_def)
    next
      case 2
      then show ?thesis
        by (simp add: wanted_def)
    qed
  qed
qed

lemma measuredWidths_append:
  "measuredWidths env (xs @ ys) ws = measuredWidths env ys (measuredWidths env xs ws)"
  by (simp add: measuredWidths_def)

lemma measuredWidths_other:
  "c \<notin> fst ` set cols \<Longrightarrow> measuredWidths env cols ws c = ws c"
  unfolding measuredWidths_def
  by (induction cols arbitrary: ws) auto

lemma measuredWidths_single:
  "measuredWidths env [(c, sample)] ws c = Some (outerWidth env c sample)"
  by (simp add: measuredWidths_def)

text \<open>
  A sample selector that answers the requested column alone: the registrations of a
  list of columns are keyed by those columns, and the width cached for one of them is
  the one measured on its own samples.
\<close>

lemma own_keys:
  "\<forall>c. map fst (generateColumnSamples env c rr) = [c] \<Longrightarrow>
   fst ` set (concat (map (\<lambda>c. generateColumnSamples env c rr) zs)) = set zs"
proof (induction zs)
  case Nil
  then show ?case by simp
next
  case (Cons z zs)
  from Cons.prems have "fst ` set (generateColumnSamples env z rr) = {z}"
    by (metis list.set_map list.simps(15) empty_set)
  with Cons show ?case
    by (simp add: image_Un)
qed

lemma measuredWidths_own:
  assumes own: "\<forall>c. map fst (generateColumnSamples env c rr) = [c]"
    and mem: "col \<in> set cols" and dist: "distinct cols"
  shows "measuredWidths env (pre @ concat (map (\<lambda>c. generateColumnSamples env c rr) cols)) ws col
     = Some (outerWidth env col (snd (hd (generateColumnSamples env col rr))))"
proof -
  from mem obtain ys zs where split: "cols = ys @ col # zs"
    by (auto dest: split_list)
  with dist have notin: "col \<notin> set zs"
    by simp
  from own have "map fst (generateColumnSamples env col rr) = [col]"
    by blast
  then have one: "generateColumnSamples env col rr =
      [(col, snd (hd (generateColumnSamples env col rr)))]"
    by (cases "generateColumnSamples env col rr") auto
  let ?before = "pre @ concat (map (\<lambda>c. generateColumnSamples env c rr) ys)"
  let ?after = "concat (map (\<lambda>c. generateColumnSamples env c rr) zs)"
  have shape: "pre @ concat (map (\<lambda>c. generateColumnSamples env c rr) cols) =
      ?before @ generateColumnSamples env col rr @ ?after"
    by (simp add: split)
  have "col \<notin> fst ` set ?after"
    using own_keys [OF own] notin by simp
  then have "measuredWidths env (?before @ generateColumnSamples env col rr @ ?after) ws col =
      measuredWidths env (generateColumnSamples env col rr) (measuredWidths env ?before ws) col"
    by (simp add: measuredWidths_append measuredWidths_other)
  also have "\<dots> = Some (outerWidth env col (snd (hd (generateColumnSamples env col rr))))"
    by (subst one) (rule measuredWidths_single)
  finally show ?thesis
    by (simp only: shape)
qed

text \<open>
  The loop never throws: a forced call with both ranges given does not dereference
  the host, and the loop itself reads the host only behind its guard.
\<close>

lemma loop_returns:
  "\<exists>s'. loop env hotAt rowRange length' k current timer s = Inr s'"
proof (induction env hotAt rowRange length' k current timer s rule: loop.induct)
  case (1 env hotAt rowRange length' k current timer s)
  show ?case
  proof (cases "hotAt k")
    case None
    then show ?thesis
      by (subst loop.simps) simp
  next
    case (Some h)
    obtain s1 where s1: "calculateColumnsWidth env (Some h)
        (Some (Object (Range current (min (current + CALCULATION_STEP) length'))))
        (Some rowRange) True s = Inr s1"
      by (simp add: calculateColumnsWidth_forced)
    show ?thesis
    proof (cases "current + CALCULATION_STEP + 1 < length'")
      case True
      from "1.IH" [OF Some s1 True] Some s1 True show ?thesis
        by (subst loop.simps) simp
    next
      case False
      with Some s1 show ?thesis
        by (subst loop.simps) simp
    qed
  qed
qed

lemma calculateAllColumnsWidth_returns:
  "hotAt 0 \<noteq> None \<Longrightarrow> \<exists>s'. calculateAllColumnsWidth env hotAt rowRange s = Inr s'"
  by (auto simp: calculateAllColumnsWidth_def Let_def loop_returns)

section \<open>The claims\<close>

text \<open>
  C1. A run of \<open>calculateAllColumnsWidth\<close> should measure every column of a table
  with \<open>L\<close> columns exactly once and then notify the layout once. The loop is bounded
  by \<^verbatim>\<open>this.hot.countRows() - 1\<close> and goes on only while \<^verbatim>\<open>current < length\<close>: with 50
  columns and 3 rows the run requests samples for the columns 0, 1 and 2 only; with
  21 columns and 21 rows it stops after the batch 0 to 19 and never reaches column
  20; with 50 columns and 1 row it measures nothing and notifies nobody.
\<close>

theorem calculateAllColumnsWidth_bounded_by_rows:
  "map_sum id (\<lambda>s. (map fst (sampleRequests s), adjustElementsSizeCalls s))
     (calculateAllColumnsWidth ownColumn (alive (gridHost 50 3)) None emptyState)
     = Inr ([0, 1, 2], 1)
   \<and> map_sum id (\<lambda>s. (map fst (sampleRequests s), adjustElementsSizeCalls s))
     (calculateAllColumnsWidth ownColumn (alive (gridHost 21 21)) None emptyState)
     = Inr ([0, 1, 2, 3, 4, 5, 6, 7, 8, 9, 10, 11, 12, 13, 14, 15, 16, 17, 18, 19], 1)
   \<and> map_sum id (\<lambda>s. (map fst (sampleRequests s), adjustElementsSizeCalls s))
     (calculateAllColumnsWidth ownColumn (alive (gridHost 50 1)) None emptyState)
     = Inr ([], 0)"
  by code_simp

text \<open>
  C2. On a double click the before-column-resize hook should recalculate the one
  resized column over all rows. It calls \<^verbatim>\<open>calculateColumnsWidth(void 0, col, true)\<close>,
  so the column index arrives as the row range: on a table of 3 columns and 5 rows,
  a double click on column 1 requests samples for all three columns over row 1 alone
  and answers the width then cached for column 1. Without the double click the
  requested size comes back unchanged and nothing else happens.
\<close>

theorem onBeforeColumnResize_double_click_all_columns:
  "map_sum id (\<lambda>(size', s). (size', sampleRequests s))
     (onBeforeColumnResize ownColumn (Some (gridHost 3 5)) 1 (Some 75) True emptyState)
     = Inr (Some 50, [(0, Range 1 1), (1, Range 1 1), (2, Range 1 1)])
   \<and> onBeforeColumnResize env hot col size' False s = Inr (size', s)"
proof -
  have "map_sum id (\<lambda>(size', s). (size', sampleRequests s))
     (onBeforeColumnResize ownColumn (Some (gridHost 3 5)) 1 (Some 75) True emptyState)
     = Inr (Some 50, [(0, Range 1 1), (1, Range 1 1), (2, Range 1 1)])"
    by code_simp
  then show ?thesis
    by (simp add: onBeforeColumnResize_def)
qed

text \<open>
  C3, as amended. For a column of the range, the engine skips the measurement
  exactly when \<open>force\<close> is false and either a width is cached for the column or the
  host's settings declare a truthy width for it; in every other case it requests the
  column's samples and registers what the sample selector answers. Over a whole call
  the requests are those of the columns not skipped, in ascending order, judged at the
  cache the call started from, and the cache afterwards holds the measured widths of
  the registered columns.
\<close>

theorem columnStep_skips_cached_or_declared:
  "columnStep env (Some h) rowRange force col s =
     (if \<not> force \<and> (widths s col \<noteq> None \<or> truthy (getColWidthFromSettings h col)) then Inr s
      else Inr (s\<lparr>sampleRequests := sampleRequests s @ [(col, rowRange)],
                  ghostColumns := ghostColumns s @ generateColumnSamples env col rowRange\<rparr>))
   \<and> (\<exists>s'. calculateColumnsWidth env (Some h) (Some (Object (Range a b))) (Some (Object rowRange))
              force s = Inr s'
         \<and> requestedSince s s' =
             map (\<lambda>c. (c, rowRange))
               (filter (\<lambda>c. \<not> (\<not> force \<and>
                    (widths s c \<noteq> None \<or> truthy (getColWidthFromSettings h c)))) [a..b])
         \<and> widths s' =
             measuredWidths env
               (ghostColumns s @
                concat (map (\<lambda>c. generateColumnSamples env c rowRange)
                  (filter (\<lambda>c. \<not> (\<not> force \<and>
                    (widths s c \<noteq> None \<or> truthy (getColWidthFromSettings h c)))) [a..b])))
               (widths s))"
proof -
  let ?skip = "\<lambda>c. \<not> force \<and> (widths s c \<noteq> None \<or> truthy (getColWidthFromSettings h c))"
  have w: "wanted h force (widths s) = (\<lambda>c. \<not> ?skip c)"
    by (auto simp: wanted_def fun_eq_iff)
  have step: "columnStep env (Some h) rowRange force col s =
     (if ?skip col then Inr s
      else Inr (s\<lparr>sampleRequests := sampleRequests s @ [(col, rowRange)],
                  ghostColumns := ghostColumns s @ generateColumnSamples env col rowRange\<rparr>))"
    by (simp add: columnStep_def addSamples_eq)
  define s' where "s' = flush env
       (s\<lparr>sampleRequests :=
            sampleRequests s @ map (\<lambda>c. (c, rowRange)) (filter (\<lambda>c. \<not> ?skip c) [a..b]),
          ghostColumns :=
            ghostColumns s @
            concat (map (\<lambda>c. generateColumnSamples env c rowRange)
              (filter (\<lambda>c. \<not> ?skip c) [a..b]))\<rparr>)"
  have call: "calculateColumnsWidth env (Some h) (Some (Object (Range a b)))
      (Some (Object rowRange)) force s = Inr s'"
    by (simp add: calculateColumnsWidth_Some w s'_def)
  have req: "requestedSince s s' =
      map (\<lambda>c. (c, rowRange)) (filter (\<lambda>c. \<not> ?skip c) [a..b])"
    by (simp add: s'_def flush_eq requestedSince_def)
  have ws: "widths s' =
      measuredWidths env
        (ghostColumns s @
         concat (map (\<lambda>c. generateColumnSamples env c rowRange) (filter (\<lambda>c. \<not> ?skip c) [a..b])))
        (widths s)"
    by (simp add: s'_def flush_eq)
  from step call req ws show ?thesis
    by blast
qed

text \<open>
  Witness for C3. On a table that declares a width for column 2, with 120 cached for
  column 0, an
  unforced call over the columns 0 to 2 requests samples for column 1 alone.
\<close>

theorem columnStep_skips_cached_or_declared_witness:
  "\<exists>s'. calculateColumnsWidth ownColumn (Some declaredHost) (Some (Object (Range 0 2)))
          (Some (Object (Range 0 4))) False (emptyState\<lparr>widths := (\<lambda>c. None)(0 \<mapsto> 120)\<rparr>) = Inr s'
      \<and> requestedSince (emptyState\<lparr>widths := (\<lambda>c. None)(0 \<mapsto> 120)\<rparr>) s' = [(1, Range 0 4)]"
proof -
  have cols: "[0..2::int] = [0, 1, 2]"
    by code_simp
  have sel: "filter (\<lambda>c. \<not> (\<not> False \<and>
       (widths (emptyState\<lparr>widths := (\<lambda>c. None)(0 \<mapsto> 120)\<rparr> :: (int \<times> range) state) c \<noteq> None
        \<or> truthy (getColWidthFromSettings declaredHost c)))) [0..2] = [1]"
    by (simp add: cols declaredHost_def gridHost_def truthy_def)
  from columnStep_skips_cached_or_declared
      [of ownColumn declaredHost "Range 0 4" False 0
          "emptyState\<lparr>widths := (\<lambda>c. None)(0 \<mapsto> 120)\<rparr>" 0 2]
  show ?thesis
    unfolding sel by auto
qed

text \<open>
  Counterexample to C3 as written, which skips only when a width is cached and none is
  declared. Column 2 of that table has no cached width and a declared one: the
  written condition does not skip it, the engine does.
\<close>

theorem specSkips_counterexample:
  "columnStep ownColumn (Some declaredHost) (Range 0 4) False 2 emptyState = Inr emptyState
   \<and> \<not> specSkips False (widths (emptyState :: (int \<times> range) state) 2 \<noteq> None)
          (truthy (getColWidthFromSettings declaredHost 2))"
  by (simp add: columnStep_def declaredHost_def gridHost_def truthy_def emptyState_def specSkips_def)

text \<open>
  C4. With a numeric default width \<open>d\<close>, \<open>getColumnWidth\<close> answers a number that is never
  below \<open>d\<close>: the cached width when one exists and is strictly greater than \<open>d || 0\<close>,
  and \<open>d\<close> otherwise. With 120 cached for column 3, a default of 80 gives 120 and a
  default of 150 gives 150.
\<close>

theorem getColumnWidth_never_below_default:
  "(\<exists>r. getColumnWidth s col (Some d) = Some r \<and> d \<le> r)
   \<and> getColumnWidth s col (Some d) =
       (if \<exists>w. widths s col = Some w \<and> orZero (Some d) < w then widths s col else Some d)
   \<and> getColumnWidth (emptyState\<lparr>widths := (\<lambda>c. None)(3 \<mapsto> 120)\<rparr>) 3 (Some 80) = Some 120
   \<and> getColumnWidth (emptyState\<lparr>widths := (\<lambda>c. None)(3 \<mapsto> 120)\<rparr>) 3 (Some 150) = Some 150"
  by (cases "widths s col") (auto simp: getColumnWidth_def)

text \<open>
  C5, as amended. After the before-change hook, the cache holds no width for any
  edited column and the widths of all other columns are as before. The next unforced
  \<open>calculateColumnsWidth\<close> whose column range includes an edited column measures
  that column again, provided the host's settings declare no truthy width for it: the
  call requests samples for exactly the uncached, undeclared columns of its range, the
  edited column among them, registers what the sample selector answers to these
  requests, writes the measured widths of the registered columns into the cache and
  empties the ghost table. The edited column has a width again when the selector
  answers an entry for it, and when the selector answers the requested column alone
  that width is the one measured on the column's own samples.
\<close>

theorem onBeforeChange_invalidates_edited_columns:
  assumes "col \<in> (fst \<circ> snd) ` set changes"
    and "a \<le> col" and "col \<le> b"
    and "\<not> truthy (getColWidthFromSettings h col)"
  shows "widths (onBeforeChange changes s) col = None
    \<and> (\<forall>c. c \<notin> (fst \<circ> snd) ` set changes \<longrightarrow> widths (onBeforeChange changes s) c = widths s c)
    \<and> (\<exists>s'. calculateColumnsWidth env (Some h) (Some (Object (Range a b))) (Some rowRange) False
               (onBeforeChange changes s) = Inr s'
          \<and> (col, normalizeRange rowRange) \<in> set (requestedSince (onBeforeChange changes s) s')
          \<and> requestedSince (onBeforeChange changes s) s' =
              map (\<lambda>c. (c, normalizeRange rowRange))
                (filter (\<lambda>c. widths (onBeforeChange changes s) c = None
                           \<and> \<not> truthy (getColWidthFromSettings h c)) [a..b])
          \<and> widths s' =
              measuredWidths env
                (ghostColumns s @
                 concat (map (\<lambda>(c, rr). generateColumnSamples env c rr)
                   (requestedSince (onBeforeChange changes s) s')))
                (widths (onBeforeChange changes s))
          \<and> ghostColumns s' = []
          \<and> (col \<in> fst ` set (generateColumnSamples env col (normalizeRange rowRange)) \<longrightarrow>
               widths s' col \<noteq> None)
          \<and> ((\<forall>c. map fst (generateColumnSamples env c (normalizeRange rowRange)) = [c]) \<longrightarrow>
               widths s' col =
                 Some (outerWidth env col
                   (snd (hd (generateColumnSamples env col (normalizeRange rowRange)))))))"
proof -
  let ?t = "onBeforeChange changes s"
  let ?rr = "normalizeRange rowRange"
  let ?cols = "filter (wanted h False (widths ?t)) [a..b]"
  let ?registered = "ghostColumns ?t @ concat (map (\<lambda>c. generateColumnSamples env c ?rr) ?cols)"
  have absent: "widths ?t col = None"
    using assms(1) by (simp add: onBeforeChange_widths)
  have frame: "\<forall>c. c \<notin> (fst \<circ> snd) ` set changes \<longrightarrow> widths ?t c = widths s c"
    by (simp add: onBeforeChange_widths)
  have ghost: "ghostColumns ?t = ghostColumns s"
    unfolding onBeforeChange_def arrayEach_def
    by (induction changes arbitrary: s) auto
  have w: "wanted h False (widths ?t) =
      (\<lambda>c. widths ?t c = None \<and> \<not> truthy (getColWidthFromSettings h c))"
    by (simp add: wanted_def fun_eq_iff)
  have mem: "col \<in> set ?cols"
    using absent assms(2,3,4) by (simp add: wanted_def)
  define s' where "s' = flush env
       (?t\<lparr>sampleRequests := sampleRequests ?t @ map (\<lambda>c. (c, ?rr)) ?cols,
          ghostColumns := ?registered\<rparr>)"
  have call: "calculateColumnsWidth env (Some h) (Some (Object (Range a b))) (Some rowRange) False ?t
      = Inr s'"
    by (simp add: calculateColumnsWidth_Some s'_def)
  have req: "requestedSince ?t s' = map (\<lambda>c. (c, ?rr)) ?cols"
    by (simp add: s'_def flush_eq requestedSince_def)
  have asked: "(col, ?rr) \<in> set (requestedSince ?t s')"
    unfolding req using mem by force
  have ws: "widths s' = measuredWidths env ?registered (widths ?t)"
    by (simp add: s'_def flush_eq)
  have reg: "concat (map (\<lambda>(c, rr). generateColumnSamples env c rr) (requestedSince ?t s')) =
      concat (map (\<lambda>c. generateColumnSamples env c ?rr) ?cols)"
    by (simp add: req comp_def)
  have empty: "ghostColumns s' = []"
    by (simp add: s'_def flush_eq)
  have cached: "col \<in> fst ` set (generateColumnSamples env col ?rr) \<longrightarrow> widths s' col \<noteq> None"
  proof
    assume "col \<in> fst ` set (generateColumnSamples env col ?rr)"
    with mem have "col \<in> fst ` set ?registered"
      by auto
    then show "widths s' col \<noteq> None"
      unfolding ws by (intro measuredWidths_cached disjI1)
  qed
  have exact: "(\<forall>c. map fst (generateColumnSamples env c ?rr) = [c]) \<longrightarrow>
      widths s' col = Some (outerWidth env col (snd (hd (generateColumnSamples env col ?rr))))"
  proof
    assume own: "\<forall>c. map fst (generateColumnSamples env c ?rr) = [c]"
    have "distinct ?cols"
      by simp
    from measuredWidths_own [OF own mem this]
    show "widths s' col = Some (outerWidth env col (snd (hd (generateColumnSamples env col ?rr))))"
      unfolding ws .
  qed
  from ws have ws': "widths s' =
      measuredWidths env
        (ghostColumns s @
         concat (map (\<lambda>(c, rr). generateColumnSamples env c rr) (requestedSince ?t s')))
        (widths ?t)"
    by (simp only: reg ghost)
  from req have req': "requestedSince ?t s' =
      map (\<lambda>c. (c, ?rr))
        (filter (\<lambda>c. widths ?t c = None \<and> \<not> truthy (getColWidthFromSettings h c)) [a..b])"
    by (simp only: w)
  from absent frame call asked req' ws' empty cached exact show ?thesis
    by blast
qed

text \<open>
  Witness for C5, the specification's example: every column of a table of 10 columns
  is cached, the cell in row 2 of column 3 is edited, and the columns 0 to 9 are
  recalculated. Column 3 alone is requested, and it is cached again at the measured
  50 pixels.
\<close>

theorem onBeforeChange_invalidates_edited_columns_witness:
  "(3::int) \<in> (fst \<circ> snd) ` set [(2::int, 3::int, ''old'', ''new'')] \<and> (0::int) \<le> 3 \<and> (3::int) \<le> 9
   \<and> \<not> truthy (getColWidthFromSettings (gridHost 10 5) 3)
   \<and> widths (onBeforeChange [(2, 3, ''old'', ''new'')]
        (emptyState\<lparr>widths := (\<lambda>c. Some 60)\<rparr> :: (int \<times> range) state)) 3 = None
   \<and> (\<exists>s'. calculateColumnsWidth ownColumn (Some (gridHost 10 5)) (Some (Object (Range 0 9)))
              (Some (Object (Range 0 4))) False
              (onBeforeChange [(2, 3, ''old'', ''new'')] (emptyState\<lparr>widths := (\<lambda>c. Some 60)\<rparr>)) = Inr s'
         \<and> requestedSince
              (onBeforeChange [(2, 3, ''old'', ''new'')] (emptyState\<lparr>widths := (\<lambda>c. Some 60)\<rparr>)) s'
              = [(3, Range 0 4)]
         \<and> widths s' 3 = Some 50
         \<and> ghostColumns s' = [])"
proof -
  let ?t = "onBeforeChange [(2::int, 3::int, ''old'', ''new'')]
      (emptyState\<lparr>widths := (\<lambda>c. Some 60)\<rparr> :: (int \<times> range) state)"
  have h1: "(3::int) \<in> (fst \<circ> snd) ` set [(2::int, 3::int, ''old'', ''new'')]"
    by simp
  have h4: "\<not> truthy (getColWidthFromSettings (gridHost 10 5) 3)"
    by (simp add: gridHost_def truthy_def)
  have own: "\<forall>c. map fst (generateColumnSamples ownColumn c (normalizeRange (Object (Range 0 4)))) = [c]"
    by (simp add: ownColumn_def)
  have cols: "[0..9::int] = [0, 1, 2, 3, 4, 5, 6, 7, 8, 9]"
    by code_simp
  have sel: "filter (\<lambda>c. widths ?t c = None \<and> \<not> truthy (getColWidthFromSettings (gridHost 10 5) c))
      [0..9] = [3]"
    by (simp add: cols onBeforeChange_widths gridHost_def truthy_def)
  have width: "outerWidth ownColumn 3
      (snd (hd (generateColumnSamples ownColumn 3 (normalizeRange (Object (Range 0 4)))))) = 50"
    by (simp add: ownColumn_def)
  from onBeforeChange_invalidates_edited_columns
    [OF h1 _ _ h4, of 0 9 "emptyState\<lparr>widths := (\<lambda>c. Some 60)\<rparr>" ownColumn "Object (Range 0 4)"]
  obtain s' where
    "widths ?t 3 = None"
    "calculateColumnsWidth ownColumn (Some (gridHost 10 5)) (Some (Object (Range 0 9)))
       (Some (Object (Range 0 4))) False ?t = Inr s'"
    "requestedSince ?t s' = [(3, Range 0 4)]"
    "widths s' 3 = Some 50"
    "ghostColumns s' = []"
    using own unfolding sel width by auto
  with h1 h4 show ?thesis
    by auto
qed

text \<open>
  Counterexample to C5 as written, which promises the new measurement for every
  edited column.
  On the table that declares a width for column 2, with 120 cached for that column,
  an edit of column 2 empties its cache entry, and the next unforced call over the
  columns 0 to 2 requests samples for the columns 0 and 1 only; column 2 stays
  without a width.
\<close>

theorem onBeforeChange_declared_counterexample:
  "map_sum id (\<lambda>s. (map fst (sampleRequests s), widths s 2))
     (calculateColumnsWidth ownColumn (Some declaredHost) (Some (Object (Range 0 2))) None False
        (onBeforeChange [(0, 2, ''old'', ''new'')] (emptyState\<lparr>widths := (\<lambda>c. None)(2 \<mapsto> 120)\<rparr>)))
     = Inr ([0, 1], None)"
  by code_simp

text \<open>
  C6. Two unforced calls of \<open>calculateColumnsWidth\<close> with the same arguments, on
  unchanged host data and configuration, end in the same state: the second call
  requests no samples, registers no column and leaves the cache as the first call
  left it. The sample selector is a parameter here; the plugin builds its own, which
  answers the values of the column it is asked about, and that is the hypothesis.
\<close>

theorem calculateColumnsWidth_idempotent:
  assumes "\<forall>c rr. c \<in> fst ` set (generateColumnSamples env c rr)"
  shows "\<exists>s1. calculateColumnsWidth env (Some h) colRange rowRange False s = Inr s1
           \<and> calculateColumnsWidth env (Some h) colRange rowRange False s1 = Inr s1"
proof -
  let ?colArg = "case colRange of None \<Rightarrow> Object (Range 0 (countCols h - 1)) | Some a \<Rightarrow> a"
  let ?rowArg = "case rowRange of None \<Rightarrow> Object (Range 0 (countRows h - 1)) | Some a \<Rightarrow> a"
  obtain s1 where first:
    "calculateColumnsWidth env (Some h) (Some ?colArg) (Some ?rowArg) False s = Inr s1"
    by (simp add: calculateColumnsWidth_Some)
  have "ghostColumns s1 = []"
    using first by (rule calculateColumnsWidth_ghostColumns)
  moreover have "\<forall>c \<in> set [rfrom (normalizeRange ?colArg)..rto (normalizeRange ?colArg)].
      \<not> wanted h False (widths s1) c"
    using calculateColumnsWidth_warms [OF assms first] by blast
  ultimately have
    "calculateColumnsWidth env (Some h) (Some ?colArg) (Some ?rowArg) False s1 = Inr s1"
    by (rule calculateColumnsWidth_quiet)
  with first show ?thesis
    by (subst (1 2) calculateColumnsWidth_default) blast
qed

text \<open>
  Witness for C6: a sample selector that answers the requested column alone, on an
  empty cache.
\<close>

theorem calculateColumnsWidth_idempotent_witness:
  "(\<forall>c rr. c \<in> fst ` set (generateColumnSamples ownColumn c rr))
   \<and> (\<exists>s1. calculateColumnsWidth ownColumn (Some (gridHost 3 5)) (Some (Object (Range 0 2))) None
              False emptyState = Inr s1
         \<and> calculateColumnsWidth ownColumn (Some (gridHost 3 5)) (Some (Object (Range 0 2))) None
              False s1 = Inr s1)"
proof -
  have own: "\<forall>c rr. c \<in> fst ` set (generateColumnSamples ownColumn c rr)"
    by (simp add: ownColumn_def)
  from calculateColumnsWidth_idempotent [OF own] own show ?thesis
    by blast
qed

text \<open>
  C7. When a scheduled call of the loop finds the host gone, it measures no batch and
  requests no samples, throws nothing, cancels its timer and schedules no further
  frame, notifies nobody, and leaves every cached width as the earlier batches wrote
  it. Nor does a run throw at whatever frame the host disappears, as long as the host
  was there when the run started.
\<close>

theorem loop_host_destroyed:
  assumes "hotAt k = None"
  shows "\<exists>s'. loop env hotAt rowRange length' k current timer s = Inr s'
      \<and> widths s' = widths s
      \<and> requestedSince s s' = []
      \<and> ghostColumns s' = ghostColumns s
      \<and> adjustElementsSizeCalls s' = adjustElementsSizeCalls s
      \<and> drawCalls s' = drawCalls s
      \<and> nextFrame s' = nextFrame s
      \<and> pendingFrames s' =
          (case timer of None \<Rightarrow> pendingFrames s | Some t \<Rightarrow> removeAll t (pendingFrames s))
      \<and> (\<forall>hotAt'. hotAt' 0 \<noteq> None \<longrightarrow>
            (\<exists>s''. calculateAllColumnsWidth env hotAt' (Some rowRange) s = Inr s''))"
proof -
  have run: "loop env hotAt rowRange length' k current timer s = Inr (cancelAnimationFrame timer s)"
    using assms by (subst loop.simps) simp
  have whole: "\<forall>hotAt'. hotAt' 0 \<noteq> None \<longrightarrow>
      (\<exists>s''. calculateAllColumnsWidth env hotAt' (Some rowRange) s = Inr s'')"
    by (simp add: calculateAllColumnsWidth_returns)
  show ?thesis
    unfolding run
    by (intro exI [where x = "cancelAnimationFrame timer s"] conjI refl whole)
       (simp_all add: cancelAnimationFrame_def requestedSince_def split: option.splits)
qed

text \<open>
  Witness for C7. A table of 50 columns and 50 rows whose host is destroyed after the
  first batch:
  the second call of the loop changes nothing, and the whole run has requested the
  samples of the columns 0 to 19, notified nobody and left no frame pending.
\<close>

theorem loop_host_destroyed_witness:
  "destroyedBefore 1 (gridHost 50 50) 1 = None
   \<and> (\<exists>s'. loop ownColumn (destroyedBefore 1 (gridHost 50 50)) (Object (Range 0 49)) 49 1 20 (Some 0)
             (emptyState\<lparr>widths := (\<lambda>c. None)(0 \<mapsto> 50), nextFrame := 1\<rparr>) = Inr s'
         \<and> widths s' = (\<lambda>c. None)(0 \<mapsto> 50)
         \<and> pendingFrames s' = [])
   \<and> map_sum id (\<lambda>s. (map fst (sampleRequests s), adjustElementsSizeCalls s, pendingFrames s))
       (calculateAllColumnsWidth ownColumn (destroyedBefore 1 (gridHost 50 50)) None emptyState)
       = Inr ([0, 1, 2, 3, 4, 5, 6, 7, 8, 9, 10, 11, 12, 13, 14, 15, 16, 17, 18, 19], 0, [])"
proof -
  have gone: "destroyedBefore 1 (gridHost 50 50) 1 = None"
    by (simp add: destroyedBefore_def)
  have whole: "map_sum id (\<lambda>s. (map fst (sampleRequests s), adjustElementsSizeCalls s, pendingFrames s))
       (calculateAllColumnsWidth ownColumn (destroyedBefore 1 (gridHost 50 50)) None emptyState)
       = Inr ([0, 1, 2, 3, 4, 5, 6, 7, 8, 9, 10, 11, 12, 13, 14, 15, 16, 17, 18, 19], 0, [])"
    by code_simp
  from gone loop_host_destroyed [where hotAt = "destroyedBefore 1 (gridHost 50 50)" and k = 1
      and env = ownColumn and rowRange = "Object (Range 0 49)" and length' = 49 and current = 20
      and timer = "Some 0"
      and s = "emptyState\<lparr>widths := (\<lambda>c. None)(0 \<mapsto> 50), nextFrame := 1\<rparr>"]
  have "\<exists>s'. loop ownColumn (destroyedBefore 1 (gridHost 50 50)) (Object (Range 0 49)) 49 1 20 (Some 0)
             (emptyState\<lparr>widths := (\<lambda>c. None)(0 \<mapsto> 50), nextFrame := 1\<rparr>) = Inr s'
         \<and> widths s' = (\<lambda>c. None)(0 \<mapsto> 50)
         \<and> pendingFrames s' = []"
    by (auto simp: emptyState_def)
  with gone whole show ?thesis
    by blast
qed

text \<open>
  C8. When the viewport reports \<open>-1\<close> for the first and the last visible column, the
  before-render hook should measure nothing. It passes the range from \<open>-1\<close> to \<open>-1\<close> to
  the engine, which visits the column \<open>-1\<close>: before the first render of a table of 3
  columns and 5 rows, the hook requests samples for column \<open>-1\<close> and caches a width
  under the index \<open>-1\<close>.
\<close>

theorem onBeforeRender_measures_column_minus_one:
  "getFirstVisibleColumn (Some (notRendered 3 5)) = Inr (- 1)
   \<and> getLastVisibleColumn (Some (notRendered 3 5)) = Inr (- 1)
   \<and> map_sum id (\<lambda>s. (sampleRequests s, widths s (- 1)))
       (onBeforeRender ownColumn (Some (notRendered 3 5)) emptyState)
       = Inr ([(- 1, Range 0 4)], Some 50)"
  by code_simp

text \<open>
  C9. On a host with at most one row, \<open>calculateAllColumnsWidth\<close> returns the state it
  was given, whatever the number of columns: no samples requested, no cached width
  changed, no frame scheduled, no layout adjustment.
\<close>

theorem calculateAllColumnsWidth_single_row:
  assumes "hotAt 0 = Some h" and "countRows h \<le> 1"
  shows "calculateAllColumnsWidth env hotAt rowRange s = Inr s"
  using assms by (simp add: calculateAllColumnsWidth_def Let_def)

text \<open>Witness for C9: a table of 50 columns and a single row.\<close>

theorem calculateAllColumnsWidth_single_row_witness:
  "alive (gridHost 50 1) 0 = Some (gridHost 50 1) \<and> countRows (gridHost 50 1) \<le> 1
   \<and> calculateAllColumnsWidth ownColumn (alive (gridHost 50 1)) None emptyState = Inr emptyState"
proof -
  have h1: "alive (gridHost 50 1) 0 = Some (gridHost 50 1)"
    by (simp add: alive_def)
  have h2: "countRows (gridHost 50 1) \<le> 1"
    by (simp add: gridHost_def)
  from calculateAllColumnsWidth_single_row [where hotAt = "alive (gridHost 50 1)"
      and h = "gridHost 50 1" and env = ownColumn and rowRange = None and s = emptyState] h1 h2
  show ?thesis
    by blast
qed

text \<open>
  C10. Without a default width, \<open>getColumnWidth\<close> answers the cached width when one
  exists and is strictly greater than 0, and \<^verbatim>\<open>undefined\<close> otherwise, also when the
  cached width is 0. The double-click path answers \<^verbatim>\<open>undefined\<close> as the new size when
  the forced measurement cached no positive width, as with a ghost table that
  measures 0 pixels.
\<close>

theorem getColumnWidth_without_default:
  "getColumnWidth s col None =
     (case widths s col of None \<Rightarrow> None | Some w \<Rightarrow> if 0 < w then Some w else None)
   \<and> getColumnWidth (emptyState\<lparr>widths := (\<lambda>c. None)(3 \<mapsto> 0)\<rparr>) 3 None = None
   \<and> map_sum id fst (onBeforeColumnResize zeroWidth (Some (gridHost 3 5)) 1 (Some 75) True emptyState)
       = Inr None"
proof -
  have general: "getColumnWidth s col None =
     (case widths s col of None \<Rightarrow> None | Some w \<Rightarrow> if 0 < w then Some w else None)"
    by (simp add: getColumnWidth_def split: option.splits)
  have zero: "getColumnWidth (emptyState\<lparr>widths := (\<lambda>c. None)(3 \<mapsto> 0)\<rparr>) 3 None = None"
    by (simp add: getColumnWidth_def)
  have dbl: "map_sum id fst
      (onBeforeColumnResize zeroWidth (Some (gridHost 3 5)) 1 (Some 75) True emptyState) = Inr None"
    by code_simp
  from general zero dbl show ?thesis
    by blast
qed

end
